theory Spec2Isabelle
  imports Main
begin

section \<open>Label printing: the renderer, the increment helper and the print job\<close>

text \<open>
  A shallow embedding of \<^verbatim>\<open>src/print_label.py\<close>: the two ZPL renderers
  \<^verbatim>\<open>create_label\<close> and \<^verbatim>\<open>create_large\<close>, the form's
  \<^verbatim>\<open>on_size_select\<close>, and the methods \<^verbatim>\<open>on_stop\<close>,
  \<^verbatim>\<open>start_printer\<close>, \<^verbatim>\<open>send_to_printer\<close>,
  \<^verbatim>\<open>inc_nums\<close> and \<^verbatim>\<open>print_label\<close> of \<^verbatim>\<open>LabelApp\<close>.
  Python strings are \<^typ>\<open>string\<close>, Python integers are \<^typ>\<open>int\<close>, and every
  exception the code can raise is a value of \<open>exn\<close> returned on the left of a sum.
\<close>

subsection \<open>Exceptions\<close>

datatype exn =
    NameError string
  | UnboundLocalError string
  | ValueError string
  | IndexError string
  | AttributeError string
  | TypeError string
  | OSError string
  | Unmodelled string

text \<open>
  \<^verbatim>\<open>except (ConnectionRefusedError, OSError)\<close> catches \<^verbatim>\<open>OSError\<close> and its
  subclasses, which the model does not tell apart, and nothing else.
\<close>

definition is_OSError :: "exn \<Rightarrow> bool" where
  "is_OSError x = (case x of OSError m \<Rightarrow> True | _ \<Rightarrow> False)"

subsection \<open>Characters and positional formatting\<close>

definition nl :: char where
  "nl = CHR 0x0A"

definition bsl :: char where
  "bsl = CHR 0x5C"

definition is_digit :: "char \<Rightarrow> bool" where
  "is_digit c = (c \<in> set ''0123456789'')"

definition digit_val :: "char \<Rightarrow> int" where
  "digit_val c = int (of_char c) - 48"

text \<open>\<^verbatim>\<open>int(text)\<close> on a run of decimal digits, most significant digit first.\<close>

definition digits_val :: "string \<Rightarrow> int" where
  "digits_val s = foldl (\<lambda>a c. 10 * a + digit_val c) 0 s"

text \<open>
  \<^verbatim>\<open>template.format(*args)\<close> for the subset of the format mini-language that the
  two templates use: literal text, the doubled braces, and replacement fields
  \<^verbatim>\<open>{n}\<close> with a decimal index \<open>n\<close>. All arguments are strings, which
  \<^verbatim>\<open>format\<close> inserts as they are; the inserted text is not scanned again.
  A lone brace raises \<^verbatim>\<open>ValueError\<close> and an index past the arguments raises
  \<^verbatim>\<open>IndexError\<close>, as in Python; any other field syntax is outside the subset.
\<close>

function py_format :: "string \<Rightarrow> string list \<Rightarrow> exn + string" where
  "py_format [] args = Inr []"
| "py_format (c # cs) args =
     (if c = CHR ''{'' then
        (case cs of
           [] \<Rightarrow> Inl (ValueError ''Single { encountered in format string'')
         | d # ds \<Rightarrow>
             if d = CHR ''{'' then
               (case py_format ds args of Inl e \<Rightarrow> Inl e | Inr r \<Rightarrow> Inr (CHR ''{'' # r))
             else
               (let name = takeWhile is_digit cs; rest = dropWhile is_digit cs in
                if name = [] then Inl (Unmodelled ''format field'')
                else
                  (case rest of
                     [] \<Rightarrow> Inl (ValueError ''expected } before end of string'')
                   | e # es \<Rightarrow>
                       if e = CHR ''}'' then
                         (if nat (digits_val name) < length args then
                            (case py_format es args of
                               Inl x \<Rightarrow> Inl x
                             | Inr r \<Rightarrow> Inr (args ! nat (digits_val name) @ r))
                          else Inl (IndexError ''Replacement index out of range''))
                       else Inl (Unmodelled ''format field''))))
      else if c = CHR ''}'' then
        (case cs of
           [] \<Rightarrow> Inl (ValueError ''Single } encountered in format string'')
         | d # ds \<Rightarrow>
             if d = CHR ''}'' then
               (case py_format ds args of Inl e \<Rightarrow> Inl e | Inr r \<Rightarrow> Inr (CHR ''}'' # r))
             else Inl (ValueError ''Single } encountered in format string''))
      else
        (case py_format cs args of Inl e \<Rightarrow> Inl e | Inr r \<Rightarrow> Inr (c # r)))"
  by pat_completeness auto

termination py_format
proof (relation "measure (\<lambda>(s, args). length s)")
  fix c :: char and cs :: string and args :: "string list" and d ds name rest e es
  assume "rest = dropWhile is_digit cs" and "rest = e # es"
  then have "length (e # es) \<le> length cs"
    by (metis length_dropWhile_le)
  then have "length es < length cs"
    by simp
  then show "((es, args), (c # cs, args)) \<in> measure (\<lambda>(s, args). length s)"
    by simp
qed simp_all

subsection \<open>The two renderers\<close>

text \<open>
  Each template is a triple-quoted literal: it starts with a newline, its lines are
  separated by newlines, and nothing follows \<^verbatim>\<open>^XZ\<close>. The literal is not a raw
  string, but a backslash before a caret is no escape sequence of Python, so the
  backslash stays in the text.
\<close>

definition zpl_lines :: "string list \<Rightarrow> string" where
  "zpl_lines ls = concat (map (\<lambda>l. nl # l) ls)"

definition medium_template :: string where
  "medium_template = zpl_lines
     [''CT~~CD,~CC^~CT~'',
      ''^XA~TA000~JSN^LT0^MNW^MTT^PON^PMN^LH0,0^JMA^PR4,4~SD30^JUS^LRN^CI28^XZ'',
      ''^XA'',
      ''^MMT'',
      ''^PW898'',
      ''^LL0295'',
      ''^LS0'',
      ''^BY110,110^FT506,111^BXN,4,200,22,22,1,~'',
      ''^FH'' @ bsl # ''^FD{0}^FS'',
      ''^FT445,151^A0N,21,21^FH'' @ bsl # ''^FD{1}^FS'',
      ''^FT445,184^A0N,21,21^FH'' @ bsl # ''^FD{2}^FS'',
      ''^FT445,217^A0N,21,21^FH'' @ bsl # ''^FD{3}^FS'',
      ''^FT445,253^A0N,21,21^FH'' @ bsl # ''^FD{4}^FS'',
      ''^FT462,33^A0R,21,21^FH'' @ bsl # ''^FD{5}^FS'',
      ''^PQ1,0,1,Y^XZ'']"

definition large_template :: string where
  "large_template = zpl_lines
     [''CT~~CD,~CC^~CT~'',
      ''^XA~TA000~JSN^LT0^MNW^MTT^PON^PMN^LH0,0^JMA^PR4,4~SD28^JUS^LRN^CI28^XZ'',
      ''^XA'',
      ''^MMT'',
      ''^PW602'',
      ''^LL0295'',
      ''^LS0'',
      ''^BY110,110^FT465,143^BXN,5,200,22,22,1,~'',
      ''^FH'' @ bsl # ''^FD{0}^FS'',
      ''^FT491,171^A0N,21,21^FH'' @ bsl # ''^FD{6}^FS'',
      ''^FT35,67^A0N,42,40^FH'' @ bsl # ''^FD{1}^FS'',
      ''^FT35,119^A0N,42,40^FH'' @ bsl # ''^FD{2}^FS'',
      ''^FT35,171^A0N,42,40^FH'' @ bsl # ''^FD{3}^FS'',
      ''^FT35,226^A0N,42,40^FH'' @ bsl # ''^FD{4}^FS'',
      ''^FT35,278^A0N,42,40^FH'' @ bsl # ''^FD{5}^FS'',
      ''^PQ1,0,1,Y^XZ'']"

text \<open>\<^verbatim>\<open>uuid[:8]\<close> is \<open>take 8 uuid\<close>: a slice never raises on a short string.\<close>

definition create_label ::
  "string \<Rightarrow> string \<Rightarrow> string \<Rightarrow> string \<Rightarrow> string \<Rightarrow> exn + string" where
  "create_label uuid text1 text2 text3 text4 =
     py_format medium_template [uuid, text1, text2, text3, text4, take 8 uuid]"

definition create_large ::
  "string \<Rightarrow> string \<Rightarrow> string \<Rightarrow> string \<Rightarrow> string \<Rightarrow> string \<Rightarrow> exn + string" where
  "create_large uuid text1 text2 text3 text4 text5 =
     py_format large_template [uuid, text1, text2, text3, text4, text5, take 8 uuid]"

text \<open>
  Vocabulary for reading a rendered document: a field-data command with its hexadecimal
  escape indicator, and a text field placed at a position with a font command
  (\<^verbatim>\<open>A0N\<close> is font 0 in normal orientation, \<^verbatim>\<open>A0R\<close> is font 0 rotated).
\<close>

definition field_data :: "string \<Rightarrow> string" where
  "field_data d = ''^FH'' @ bsl # ''^FD'' @ d @ ''^FS''"

definition text_field :: "string \<Rightarrow> string \<Rightarrow> string \<Rightarrow> string" where
  "text_field pos font d = ''^FT'' @ pos @ ''^'' @ font @ field_data d"

text \<open>How often a text occurs in a document, counting every position at which it starts.\<close>

primrec occurrences :: "string \<Rightarrow> string \<Rightarrow> nat" where
  "occurrences p [] = 0"
| "occurrences p (c # cs) =
     (if take (length p) (c # cs) = p then 1 else 0) + occurrences p cs"

subsection \<open>The increment helper\<close>

text \<open>\<^verbatim>\<open>str(n)\<close> for an integer: decimal digits, no leading zeros, a minus sign if negative.\<close>

fun str_nat :: "nat \<Rightarrow> string" where
  "str_nat n =
     (if n < 10 then [''0123456789'' ! n]
      else str_nat (n div 10) @ [''0123456789'' ! (n mod 10)])"

declare str_nat.simps [simp del]

definition py_str :: "int \<Rightarrow> string" where
  "py_str i = (if i < 0 then CHR ''-'' # str_nat (nat (- i)) else str_nat (nat i))"

text \<open>
  \<^verbatim>\<open>text.isdigit()\<close>: a non-empty text of digits only. The helper reads it on the
  matches of the pattern below, which hold ASCII digits and at most one point.
\<close>

definition isdigit :: "string \<Rightarrow> bool" where
  "isdigit s = (s \<noteq> [] \<and> list_all is_digit s)"

text \<open>
  The nested function \<^verbatim>\<open>increment(text, inc)\<close>. Binary floating point is not
  embedded: \<open>fl text inc\<close> stands for \<^verbatim>\<open>str(float(text)+inc)\<close> and is a
  parameter of the model.
\<close>

definition increment :: "(string \<Rightarrow> int \<Rightarrow> string) \<Rightarrow> string \<Rightarrow> int \<Rightarrow> string" where
  "increment fl text inc =
     (if isdigit text then py_str (digits_val text + inc) else fl text inc)"

text \<open>
  \<^verbatim>\<open>re.sub('(\d+(?:\.\d+)?)', lambda m: f(m.group(0)), text)\<close>. The scan goes left to
  right. At a digit the match takes the whole run of digits and then, if a point and at
  least one digit follow, the point and the next whole run of digits; the match is
  replaced by \<open>f\<close> of it and the scan goes on behind it. Every other character is
  copied.
\<close>

function re_sub_numbers :: "(string \<Rightarrow> string) \<Rightarrow> string \<Rightarrow> string" where
  "re_sub_numbers f [] = []"
| "re_sub_numbers f (c # cs) =
     (if is_digit c then
        (let whole = c # takeWhile is_digit cs; rest = dropWhile is_digit cs in
         case rest of
           d # e # es \<Rightarrow>
             if d = CHR ''.'' \<and> is_digit e then
               f (whole @ d # e # takeWhile is_digit es)
                 @ re_sub_numbers f (dropWhile is_digit es)
             else f whole @ re_sub_numbers f rest
         | _ \<Rightarrow> f whole @ re_sub_numbers f rest)
      else c # re_sub_numbers f cs)"
  by pat_completeness auto

termination re_sub_numbers
proof (relation "measure (\<lambda>(f, s). length s)",
    simp_all add: less_Suc_eq_le length_dropWhile_le)
  fix cs :: string and e es
  assume "CHR ''.'' # e # es = dropWhile is_digit cs"
  then have "length (CHR ''.'' # e # es) \<le> length cs"
    by (metis length_dropWhile_le)
  moreover have "length (dropWhile is_digit es) \<le> length es"
    by (rule length_dropWhile_le)
  ultimately show "length (dropWhile is_digit es) \<le> length cs"
    by simp
qed

subsection \<open>The module namespace, the network and the other inputs from outside\<close>

text \<open>
  The names bound at module scope once the file is loaded: its imports, its constants,
  its functions and its classes, in the order of the file. \<^verbatim>\<open>inc_nums\<close> is bound
  in the body of the class \<^verbatim>\<open>LabelApp\<close> only, and there is no
  \<^verbatim>\<open>import re\<close>. A method body looks a free name up at module scope (and then
  among the builtins), never in the class body.
\<close>

definition module_globals :: "string list" where
  "module_globals =
     [''sys'', ''os'', ''time'', ''uuid'', ''warnings'', ''socket'', ''yaml'', ''dt'',
      ''ArgumentParser'', ''RawDescriptionHelpFormatter'', ''App'', ''Widget'',
      ''TextInput'', ''Button'', ''Bubble'', ''FloatLayout'', ''GridLayout'',
      ''AnchorLayout'', ''Popup'', ''BooleanProperty'', ''Label'', ''NumericProperty'',
      ''resource_add_path'', ''Config'', ''__all__'', ''__version__'', ''__date__'',
      ''__updated__'', ''DEBUG'', ''TESTRUN'', ''PROFILE'', ''IPS'', ''new_hex_uuid'',
      ''create_label'', ''create_large'', ''LimitText'', ''Alert'', ''LabelWidget'',
      ''LabelApp'', ''read_config'', ''resourcePath'', ''main'', ''parse_options'']"

text \<open>
  What the program takes from outside: the names bound at module scope (\<open>globals\<close>; the
  program as it is has \<open>module_globals\<close>), whether a connection to an address succeeds
  (\<open>reachable\<close>), the exception that \<^verbatim>\<open>connect\<close> raises when it does not
  (\<open>connect_error\<close>: \<^verbatim>\<open>OSError\<close> when the network refuses, another exception
  such as \<^verbatim>\<open>TypeError\<close> when the address is no host name at all), whether the
  \<open>k\<close>-th write of the run to a connected socket
  succeeds (\<open>send_ok\<close>), the text of the \<open>k\<close>-th identifier that
  \<^verbatim>\<open>str(uuid.uuid1())\<close> returns (\<open>uuid1\<close>), the floating-point parameter
  of \<open>increment\<close> (\<open>str_float_add\<close>), and the two entries of the module's table
  \<^verbatim>\<open>IPS\<close> (\<open>ips_M\<close>, \<open>ips_L\<close>), which only the configuration loader assigns
  before the application starts.
\<close>

record env =
  globals :: "string list"
  reachable :: "string \<Rightarrow> bool"
  connect_error :: "string \<Rightarrow> exn"
  send_ok :: "nat \<Rightarrow> bool"
  uuid1 :: "nat \<Rightarrow> string"
  str_float_add :: "string \<Rightarrow> int \<Rightarrow> string"
  ips_M :: string
  ips_L :: string

subsection \<open>The form and the application object\<close>

text \<open>
  The fields of the form that the code reads or writes through
  \<^verbatim>\<open>self.widget.ids\<close>: the address, the five text inputs with their
  \<^verbatim>\<open>max_characters\<close>, the \<^verbatim>\<open>inc_num\<close> property of the fourth text input,
  the selected setup, the number of copies as text, and \<^verbatim>\<open>label_size\<close>.
\<close>

record widget =
  ip_text :: string
  text1 :: string
  text2 :: string
  text3 :: string
  text4 :: string
  text5 :: string
  max1 :: int
  max2 :: int
  max3 :: int
  max4 :: int
  max5 :: int
  text4_inc_num :: bool
  setup_text :: string
  number_text :: string
  label_size :: string

text \<open>A socket object: created and not connected, connected to an address, or closed.\<close>

datatype sock = Fresh | Connected string | Closed

text \<open>
  What can be observed of a run, in the order in which it happens: a connection
  established, a document returned by a renderer, a document written to the socket, the
  pause of two microseconds, a socket closed, and an alert shown.
\<close>

datatype event =
    EvConnect string int
  | EvRender string
  | EvSend string
  | EvSleep
  | EvClose
  | EvAlert string string

text \<open>
  The application object (\<open>widget\<close>, \<open>socket\<close>, \<open>IP\<close>, \<open>PORT\<close>,
  \<open>BUFFER_SIZE\<close>; an attribute not yet assigned is \<open>None\<close>) together with the
  record of the run: the events so far, the lines printed, and how many identifiers and
  how many writes the run has asked for.
\<close>

record state =
  widget :: widget
  socket :: "sock option"
  IP :: "string option"
  PORT :: "int option"
  BUFFER_SIZE :: "int option"
  trace :: "event list"
  stdout :: "string list"
  uuid_count :: nat
  send_count :: nat

subsection \<open>The form: choosing a label size\<close>

text \<open>
  \<^verbatim>\<open>on_size_select\<close> with its nested \<^verbatim>\<open>change_size(ida, size)\<close>, which sets
  \<^verbatim>\<open>max_characters\<close> and cuts the text with the slice \<^verbatim>\<open>ida.text[:size]\<close>.
  Every size in the code is a non-negative literal, so the slice is \<open>take\<close>.
\<close>

definition on_size_select :: "env \<Rightarrow> string \<Rightarrow> widget \<Rightarrow> widget" where
  "on_size_select e sz w =
     (let w0 = w\<lparr>label_size := sz\<rparr> in
      if sz = ''Medium'' then
        w0\<lparr>max1 := 18, text1 := take 18 (text1 w0),
           max2 := 18, text2 := take 18 (text2 w0),
           max3 := 18, text3 := take 18 (text3 w0),
           max4 := 18, text4 := take 18 (text4 w0),
           max5 := 0, text5 := take 0 (text5 w0),
           ip_text := ips_M e\<rparr>
      else if sz = ''Large'' then
        w0\<lparr>max1 := 20, text1 := take 20 (text1 w0),
           max2 := 20, text2 := take 20 (text2 w0),
           max3 := 20, text3 := take 20 (text3 w0),
           max4 := 20, text4 := take 20 (text4 w0),
           max5 := 36, text5 := take 36 (text5 w0),
           ip_text := ips_L e\<rparr>
      else w0)"

subsection \<open>The application\<close>

text \<open>
  \<^verbatim>\<open>build\<close>: the form comes from the layout file, which is not part of the
  sources; \<^verbatim>\<open>build\<close> sets its size and address and leaves the socket unset.
\<close>

definition build :: "env \<Rightarrow> widget \<Rightarrow> state" where
  "build e w =
     \<lparr>widget = w\<lparr>label_size := ''Medium'', ip_text := ips_M e\<rparr>,
      socket = None, IP = None, PORT = None, BUFFER_SIZE = None,
      trace = [], stdout = [], uuid_count = 0, send_count = 0\<rparr>"

text \<open>
  \<^verbatim>\<open>on_stop\<close>. A socket object is always true in a condition, so
  \<^verbatim>\<open>if self.socket\<close> asks whether the attribute is not \<^verbatim>\<open>None\<close>.
  \<^verbatim>\<open>socket.close()\<close> on a closed socket does nothing in Python. The method
  returns \<^verbatim>\<open>True\<close>.
\<close>

definition on_stop :: "state \<Rightarrow> (exn + bool) \<times> state" where
  "on_stop s =
     (let s1 = s\<lparr>stdout := stdout s @ [''Exiting'']\<rparr> in
      case socket s1 of
        None \<Rightarrow> (Inr True, s1)
      | Some Closed \<Rightarrow> (Inr True, s1)
      | Some _ \<Rightarrow> (Inr True, s1\<lparr>socket := Some Closed, trace := trace s1 @ [EvClose]\<rparr>))"

text \<open>
  \<^verbatim>\<open>start_printer\<close>: the three attributes, a new socket object, and
  \<^verbatim>\<open>connect\<close>, which connects the socket or raises the exception that the
  environment gives for the address: \<^verbatim>\<open>OSError\<close> (or a subclass such as
  \<^verbatim>\<open>ConnectionRefusedError\<close>) when the address cannot be reached, and an
  exception of another class when the address is rejected before the network is asked.
\<close>

definition start_printer :: "env \<Rightarrow> string \<Rightarrow> state \<Rightarrow> (exn + unit) \<times> state" where
  "start_printer e ip s =
     (let s1 = s\<lparr>IP := Some ip, PORT := Some 9100, BUFFER_SIZE := Some 1024,
                 socket := Some Fresh\<rparr> in
      if reachable e ip then
        (Inr (), s1\<lparr>socket := Some (Connected ip), trace := trace s1 @ [EvConnect ip 9100]\<rparr>)
      else (Inl (connect_error e ip), s1))"

text \<open>
  \<^verbatim>\<open>send_to_printer\<close>: \<^verbatim>\<open>self.socket.send(bytes(zpl, "utf-8"))\<close>. Without
  a socket object the attribute lookup fails; a socket that is not connected, or a
  write that the network refuses, raises \<^verbatim>\<open>OSError\<close>. The event records
  the text of the document.
\<close>

definition send_to_printer :: "env \<Rightarrow> string \<Rightarrow> state \<Rightarrow> (exn + unit) \<times> state" where
  "send_to_printer e zpl s =
     (case socket s of
        None \<Rightarrow> (Inl (AttributeError ''send''), s)
      | Some (Connected ip) \<Rightarrow>
          (let s1 = s\<lparr>send_count := Suc (send_count s)\<rparr> in
           if send_ok e (send_count s) then (Inr (), s1\<lparr>trace := trace s1 @ [EvSend zpl]\<rparr>)
           else (Inl (OSError ''send''), s1))
      | Some _ \<Rightarrow> (Inl (OSError ''send''), s))"

text \<open>
  \<^verbatim>\<open>inc_nums(text)\<close>, the function in the body of the class. Its first step is the
  lookup of the name \<^verbatim>\<open>re\<close> at module scope. The call of the nested
  \<^verbatim>\<open>increment\<close> passes the amount \<open>1\<close>.
\<close>

definition inc_nums :: "env \<Rightarrow> string \<Rightarrow> exn + string" where
  "inc_nums e text =
     (if ''re'' \<in> set (globals e) then
        Inr (re_sub_numbers (\<lambda>m. increment (str_float_add e) m 1) text)
      else Inl (NameError ''re''))"

text \<open>
  \<^verbatim>\<open>int(text)\<close> on a string: white space around the number is dropped, one sign
  may lead, and the digits may be grouped by single underscores. Anything else raises
  \<^verbatim>\<open>ValueError\<close>. The white space that \<^verbatim>\<open>int\<close> drops is, among the
  characters up to 255, the six ASCII ones (9 to 13 and 32) and the two others that count
  as space (133 and 160); the separators 28 to 31 are not dropped.
\<close>

definition is_space :: "char \<Rightarrow> bool" where
  "is_space c = ((of_char c :: nat) \<in> {9, 10, 11, 12, 13, 32, 133, 160})"

definition strip :: "string \<Rightarrow> string" where
  "strip s = rev (dropWhile is_space (rev (dropWhile is_space s)))"

fun digit_groups :: "string \<Rightarrow> bool" where
  "digit_groups [] = False"
| "digit_groups [c] = is_digit c"
| "digit_groups (c # d # cs) =
     (is_digit c \<and> (if d = CHR ''_'' then digit_groups cs else digit_groups (d # cs)))"

definition py_int :: "string \<Rightarrow> exn + int" where
  "py_int s =
     (let t = strip s;
          neg = (t \<noteq> [] \<and> hd t = CHR ''-'');
          body = (if t \<noteq> [] \<and> (hd t = CHR ''-'' \<or> hd t = CHR ''+'') then tl t else t)
      in if digit_groups body then
           Inr ((if neg then - 1 else 1) * digits_val (filter (\<lambda>c. c \<noteq> CHR ''_'') body))
         else Inl (ValueError ''invalid literal for int() with base 10''))"

text \<open>
  The local variables of \<^verbatim>\<open>print_label\<close> that the loop uses: the five texts
  read from the form before the loop, and \<^verbatim>\<open>zpl\<close>, which is unbound until a
  renderer has been called.
\<close>

record locals =
  l_text1 :: string
  l_text2 :: string
  l_text3 :: string
  l_text4 :: string
  l_text5 :: string
  l_zpl :: "string option"

text \<open>
  One pass through the body of the loop, in three steps as in the source: the increment
  (the call \<^verbatim>\<open>inc_nums(text4)\<close> looks the bare name up at module scope, and the
  result is written back to the form), the choice of the renderer with a new identifier,
  and the write followed by the pause.
\<close>

definition copy_increment :: "env \<Rightarrow> locals \<Rightarrow> state \<Rightarrow> (exn + locals) \<times> state" where
  "copy_increment e l s =
     (if text4_inc_num (widget s) then
        (if ''inc_nums'' \<in> set (globals e) then
           (case inc_nums e (l_text4 l) of
              Inl x \<Rightarrow> (Inl x, s)
            | Inr t \<Rightarrow> (Inr (l\<lparr>l_text4 := t\<rparr>), s\<lparr>widget := (widget s)\<lparr>text4 := t\<rparr>\<rparr>))
         else (Inl (NameError ''inc_nums''), s))
      else (Inr l, s))"

definition rendered :: "exn + string \<Rightarrow> locals \<Rightarrow> state \<Rightarrow> (exn + locals) \<times> state" where
  "rendered r l s =
     (let s1 = s\<lparr>uuid_count := Suc (uuid_count s)\<rparr> in
      case r of
        Inl x \<Rightarrow> (Inl x, s1)
      | Inr z \<Rightarrow> (Inr (l\<lparr>l_zpl := Some z\<rparr>), s1\<lparr>trace := trace s1 @ [EvRender z]\<rparr>))"

definition copy_render :: "env \<Rightarrow> locals \<Rightarrow> state \<Rightarrow> (exn + locals) \<times> state" where
  "copy_render e l s =
     (if setup_text (widget s) = ''Large'' then
        rendered (create_large (uuid1 e (uuid_count s))
                    (l_text1 l) (l_text2 l) (l_text3 l) (l_text4 l) (l_text5 l)) l s
      else if setup_text (widget s) = ''Medium'' then
        rendered (create_label (uuid1 e (uuid_count s))
                    (l_text1 l) (l_text2 l) (l_text3 l) (l_text4 l)) l s
      else (Inr l, s))"

definition copy_send :: "env \<Rightarrow> locals \<Rightarrow> state \<Rightarrow> (exn + locals) \<times> state" where
  "copy_send e l s =
     (case l_zpl l of
        None \<Rightarrow> (Inl (UnboundLocalError ''zpl''), s)
      | Some z \<Rightarrow>
          (case send_to_printer e z s of
             (Inl x, s1) \<Rightarrow> (Inl x, s1)
           | (Inr u, s1) \<Rightarrow> (Inr l, s1\<lparr>trace := trace s1 @ [EvSleep]\<rparr>)))"

definition print_copy :: "env \<Rightarrow> locals \<Rightarrow> state \<Rightarrow> (exn + locals) \<times> state" where
  "print_copy e l s =
     (case copy_increment e l s of
        (Inl x, s1) \<Rightarrow> (Inl x, s1)
      | (Inr l1, s1) \<Rightarrow>
          (case copy_render e l1 s1 of
             (Inl x, s2) \<Rightarrow> (Inl x, s2)
           | (Inr l2, s2) \<Rightarrow> copy_send e l2 s2))"

text \<open>\<^verbatim>\<open>for n in range(k)\<close>: the body runs \<open>k\<close> times and stops at an exception.\<close>

fun copies :: "env \<Rightarrow> nat \<Rightarrow> locals \<Rightarrow> state \<Rightarrow> (exn + locals) \<times> state" where
  "copies e 0 l s = (Inr l, s)"
| "copies e (Suc k) l s =
     (case print_copy e l s of
        (Inl x, s1) \<Rightarrow> (Inl x, s1)
      | (Inr l1, s1) \<Rightarrow> copies e k l1 s1)"

definition alert :: "string \<Rightarrow> string \<Rightarrow> state \<Rightarrow> state" where
  "alert title text s = s\<lparr>trace := trace s @ [EvAlert title text]\<rparr>"

text \<open>
  \<^verbatim>\<open>print_label\<close>. The \<^verbatim>\<open>except\<close> clause catches \<^verbatim>\<open>OSError\<close> and
  returns after the alert; any other exception of \<^verbatim>\<open>start_printer\<close> leaves the
  method. An empty address returns after the other alert. Both returns give
  \<^verbatim>\<open>None\<close>, as the end of the method does. An exception from \<^verbatim>\<open>int\<close> or
  from the loop leaves the method at once, so \<^verbatim>\<open>on_stop\<close> is not reached.
  \<^verbatim>\<open>range\<close> of a negative number is empty.
\<close>

definition print_label :: "env \<Rightarrow> state \<Rightarrow> (exn + unit) \<times> state" where
  "print_label e s =
     (let s0 = s\<lparr>stdout := stdout s @ [''Printing label'']\<rparr> in
      if ip_text (widget s0) \<noteq> [] then
        (case start_printer e (ip_text (widget s0)) s0 of
           (Inl x, s1) \<Rightarrow>
             if is_OSError x then
               (Inr (), alert ''Wrong IP'' ''Please input a valid/correct IP'' s1)
             else (Inl x, s1)
         | (Inr u, s1) \<Rightarrow>
             (let l = \<lparr>l_text1 = text1 (widget s1), l_text2 = text2 (widget s1),
                       l_text3 = text3 (widget s1), l_text4 = text4 (widget s1),
                       l_text5 = text5 (widget s1), l_zpl = None\<rparr> in
              case py_int (number_text (widget s1)) of
                Inl x \<Rightarrow> (Inl x, s1)
              | Inr k \<Rightarrow>
                  (case copies e (nat k) l s1 of
                     (Inl x, s2) \<Rightarrow> (Inl x, s2)
                   | (Inr l1, s2) \<Rightarrow> (Inr (), snd (on_stop s2)))))
      else (Inr (), alert ''Need IP'' ''Please input an IP'' s0))"

subsection \<open>Reading the record of a run\<close>

text \<open>
  The events of a batch of copies, one block per document: rendered, written, pause.
\<close>

definition copy_events :: "string list \<Rightarrow> event list" where
  "copy_events zs = concat (map (\<lambda>z. [EvRender z, EvSend z, EvSleep]) zs)"

text \<open>The documents written, and how often a connection was opened and closed.\<close>

fun sent :: "event list \<Rightarrow> string list" where
  "sent [] = []"
| "sent (EvSend z # es) = z # sent es"
| "sent (ev # es) = sent es"

fun opens :: "event list \<Rightarrow> nat" where
  "opens [] = 0"
| "opens (EvConnect ip port # es) = Suc (opens es)"
| "opens (ev # es) = opens es"

fun closes :: "event list \<Rightarrow> nat" where
  "closes [] = 0"
| "closes (EvClose # es) = Suc (closes es)"
| "closes (ev # es) = closes es"

text \<open>
  What holds of the local variables at the head of the loop: \<^verbatim>\<open>zpl\<close> is still
  unbound, or the selected setup is one of the two for which a renderer is called.
\<close>

definition loop_inv :: "locals \<Rightarrow> state \<Rightarrow> bool" where
  "loop_inv l s = (l_zpl l = None \<or> setup_text (widget s) = ''Large''
     \<or> setup_text (widget s) = ''Medium'')"

subsection \<open>A concrete run\<close>

text \<open>
  A concrete environment with the namespace of the module as it is: the printer at the
  default address for medium labels answers, every other address is refused by the
  network unless it holds a null character, which \<^verbatim>\<open>connect\<close> rejects with
  \<^verbatim>\<open>TypeError\<close>; every write succeeds, and the identifiers differ in their eighth
  character. The texts of the runs below hold no decimal point,
  so the floating-point parameter is never consulted; it returns the empty text.
\<close>

definition demo_uuid :: "nat \<Rightarrow> string" where
  "demo_uuid k = ''1b4e28b'' @ [''0123456789'' ! (k mod 10)] @ ''-2fa1-11d2-883f-0016d3cca427''"

definition demo_env :: env where
  "demo_env =
     \<lparr>globals = module_globals,
      reachable = (\<lambda>ip. ip = ''158.39.88.208''),
      connect_error =
        (\<lambda>ip. if CHR 0x00 \<in> set ip then TypeError ''host name must not contain null character''
              else OSError ''connect''),
      send_ok = (\<lambda>k. True),
      uuid1 = demo_uuid,
      str_float_add = (\<lambda>t i. []),
      ips_M = ''158.39.88.208'',
      ips_L = ''158.39.89.81''\<rparr>"

text \<open>The same environment with the two missing names bound at module scope.\<close>

definition bound_env :: env where
  "bound_env = demo_env\<lparr>globals := module_globals @ [''re'', ''inc_nums'']\<rparr>"

text \<open>The form of the scenario: a medium label, three copies, the texts of the example.\<close>

definition box_form :: "bool \<Rightarrow> widget" where
  "box_form inc =
     \<lparr>ip_text = [], text1 = ''ID123'', text2 = ''Cruise A'', text3 = ''2024-06-01'',
      text4 = ''Box 1'', text5 = [],
      max1 = 18, max2 = 18, max3 = 18, max4 = 18, max5 = 0,
      text4_inc_num = inc, setup_text = ''Medium'', number_text = ''3'',
      label_size = ''Medium''\<rparr>"

definition box_state :: "bool \<Rightarrow> state" where
  "box_state inc = build demo_env (box_form inc)"

text \<open>The same form with an address at which no printer answers.\<close>

definition lost_state :: state where
  "lost_state = (box_state False)\<lparr>widget := (box_form False)\<lparr>ip_text := ''10.0.0.1''\<rparr>\<rparr>"


text \<open>The application after the batch that could not connect.\<close>

definition failed_state :: state where
  "failed_state = snd (print_label demo_env lost_state)"

section \<open>Properties\<close>

subsection \<open>Closing the connection\<close>

text \<open>
  Claim C10, as stated, fails for a connection that was never opened but whose socket
  object exists: after a batch that could not connect, the application holds a socket
  that was created and never connected, and \<^verbatim>\<open>on_stop\<close> closes it, which is
  recorded as a close and changes the socket.
\<close>

theorem on_stop_closes_unconnected_socket:
  "socket failed_state = Some Fresh
   \<and> trace failed_state = [EvAlert ''Wrong IP'' ''Please input a valid/correct IP'']
   \<and> socket (snd (on_stop failed_state)) = Some Closed
   \<and> trace (snd (on_stop failed_state))
       = [EvAlert ''Wrong IP'' ''Please input a valid/correct IP'', EvClose]"
  by (simp add: failed_state_def print_label_def start_printer_def alert_def on_stop_def
      is_OSError_def Let_def lost_state_def box_state_def build_def box_form_def demo_env_def)

text \<open>
  Claim C10, amended. \<^verbatim>\<open>on_stop\<close> never raises and always returns
  \<^verbatim>\<open>True\<close>; afterwards the socket attribute is unset if it was unset and closed
  otherwise; a second \<^verbatim>\<open>on_stop\<close> changes nothing but the printed line, so
  closing is idempotent. Without a socket object (nothing was ever opened) and on a
  closed socket \<^verbatim>\<open>on_stop\<close> changes nothing but the printed line. On a socket
  object that is not closed, whether it is connected or was created by an open that
  failed and so was never connected, \<^verbatim>\<open>on_stop\<close> closes the socket: this first
  close is recorded and is not a no-op. This holds in every state, so after any
  sequence of earlier calls.
\<close>

theorem on_stop_idempotent:
  "fst (on_stop s) = Inr True
   \<and> socket (snd (on_stop s)) = map_option (\<lambda>c. Closed) (socket s)
   \<and> on_stop (snd (on_stop s)) =
       (Inr True, (snd (on_stop s))\<lparr>stdout := stdout (snd (on_stop s)) @ [''Exiting'']\<rparr>)
   \<and> (socket s = None \<or> socket s = Some Closed \<longrightarrow>
        on_stop s = (Inr True, s\<lparr>stdout := stdout s @ [''Exiting'']\<rparr>))
   \<and> (socket s = Some Fresh \<or> socket s = Some (Connected ip) \<longrightarrow>
        on_stop s = (Inr True, s\<lparr>stdout := stdout s @ [''Exiting''],
                                 socket := Some Closed, trace := trace s @ [EvClose]\<rparr>))"
  by (auto simp: on_stop_def Let_def split: option.splits sock.splits)

theorem on_stop_idempotent_witness:
  "socket (box_state False) = None
   \<and> on_stop (box_state False) = (Inr True, (box_state False)\<lparr>stdout := [''Exiting'']\<rparr>)
   \<and> socket failed_state = Some Fresh
   \<and> on_stop failed_state =
       (Inr True, failed_state\<lparr>stdout := stdout failed_state @ [''Exiting''],
                               socket := Some Closed,
                               trace := trace failed_state @ [EvClose]\<rparr>)
   \<and> on_stop (snd (on_stop failed_state)) =
       (Inr True, (snd (on_stop failed_state))
          \<lparr>stdout := stdout (snd (on_stop failed_state)) @ [''Exiting'']\<rparr>)"
proof -
  have fresh: "socket failed_state = Some Fresh"
    by (simp add: failed_state_def print_label_def start_printer_def alert_def
        is_OSError_def Let_def lost_state_def box_state_def build_def box_form_def
        demo_env_def)
  have none: "socket (box_state False) = None" "stdout (box_state False) = []"
    by (simp_all add: box_state_def build_def)
  have plain: "on_stop (box_state False)
      = (Inr True, (box_state False)\<lparr>stdout := [''Exiting'']\<rparr>)"
    using on_stop_idempotent [of "box_state False"] none by simp
  have first: "on_stop failed_state =
       (Inr True, failed_state\<lparr>stdout := stdout failed_state @ [''Exiting''],
                               socket := Some Closed,
                               trace := trace failed_state @ [EvClose]\<rparr>)"
    using on_stop_idempotent [of failed_state] fresh by blast
  have second: "on_stop (snd (on_stop failed_state)) =
       (Inr True, (snd (on_stop failed_state))
          \<lparr>stdout := stdout (snd (on_stop failed_state)) @ [''Exiting'']\<rparr>)"
    using on_stop_idempotent [of failed_state] by blast
  show ?thesis
    using none(1) plain fresh first second by blast
qed

subsection \<open>A connection that cannot be opened\<close>



subsection \<open>The increment flag in the module as it is\<close>

lemma module_globals_missing:
  "''inc_nums'' \<notin> set module_globals" "''re'' \<notin> set module_globals"
  by (simp_all add: module_globals_def)

lemma py_int_3: "py_int ''3'' = Inr 3"
  by (simp add: py_int_def strip_def is_space_def is_digit_def digits_val_def digit_val_def)

text \<open>
  Claim C4. With the namespace of the module as it is, a batch that reaches the loop
  (the connection opens and the number of copies is positive) with the increment flag
  set ends in the first pass with \<^verbatim>\<open>NameError\<close> for \<^verbatim>\<open>inc_nums\<close>. The only
  new event is the connection: nothing was rendered or written, and the socket stays
  connected. The body of \<^verbatim>\<open>inc_nums\<close> itself, on any text, raises
  \<^verbatim>\<open>NameError\<close> for \<^verbatim>\<open>re\<close>.
\<close>

theorem print_label_increment_NameError:
  assumes "globals e = module_globals"
    and "ip_text (widget s) \<noteq> []"
    and "reachable e (ip_text (widget s))"
    and "py_int (number_text (widget s)) = Inr k"
    and "0 < k"
    and "text4_inc_num (widget s)"
  shows "print_label e s =
      (Inl (NameError ''inc_nums''),
       s\<lparr>stdout := stdout s @ [''Printing label''],
         IP := Some (ip_text (widget s)), PORT := Some 9100,
         BUFFER_SIZE := Some 1024, socket := Some (Connected (ip_text (widget s))),
         trace := trace s @ [EvConnect (ip_text (widget s)) 9100]\<rparr>)
    \<and> inc_nums e t = Inl (NameError ''re'')"
proof -
  obtain j where j: "nat k = Suc j"
    using \<open>0 < k\<close> by (cases "nat k") auto
  show ?thesis
    using assms(1-4,6) j module_globals_missing
    by (simp add: print_label_def start_printer_def Let_def print_copy_def
        copy_increment_def inc_nums_def)
qed

theorem print_label_increment_NameError_witness:
  "globals demo_env = module_globals
   \<and> ip_text (widget (box_state True)) \<noteq> []
   \<and> reachable demo_env (ip_text (widget (box_state True)))
   \<and> py_int (number_text (widget (box_state True))) = Inr 3
   \<and> text4_inc_num (widget (box_state True))
   \<and> fst (print_label demo_env (box_state True)) = Inl (NameError ''inc_nums'')
   \<and> trace (snd (print_label demo_env (box_state True))) = [EvConnect ''158.39.88.208'' 9100]
   \<and> inc_nums demo_env ''Box 1'' = Inl (NameError ''re'')"
  using print_label_increment_NameError [of demo_env "box_state True" 3 "''Box 1''"] py_int_3
  by (simp add: box_state_def build_def box_form_def demo_env_def)

subsection \<open>The rendered documents\<close>

lemmas render_defs =
  zpl_lines_def field_data_def text_field_def nl_def bsl_def
  is_digit_def digits_val_def digit_val_def

lemma create_label_expand:
  "create_label u t1 t2 t3 t4 = Inr (zpl_lines
     [''CT~~CD,~CC^~CT~'',
      ''^XA~TA000~JSN^LT0^MNW^MTT^PON^PMN^LH0,0^JMA^PR4,4~SD30^JUS^LRN^CI28^XZ'',
      ''^XA'',
      ''^MMT'',
      ''^PW898'',
      ''^LL0295'',
      ''^LS0'',
      ''^BY110,110^FT506,111^BXN,4,200,22,22,1,~'',
      field_data u,
      text_field ''445,151'' ''A0N,21,21'' t1,
      text_field ''445,184'' ''A0N,21,21'' t2,
      text_field ''445,217'' ''A0N,21,21'' t3,
      text_field ''445,253'' ''A0N,21,21'' t4,
      text_field ''462,33'' ''A0R,21,21'' (take 8 u),
      ''^PQ1,0,1,Y^XZ''])"
  by (simp add: create_label_def medium_template_def render_defs)

lemma create_large_expand:
  "create_large u t1 t2 t3 t4 t5 = Inr (zpl_lines
     [''CT~~CD,~CC^~CT~'',
      ''^XA~TA000~JSN^LT0^MNW^MTT^PON^PMN^LH0,0^JMA^PR4,4~SD28^JUS^LRN^CI28^XZ'',
      ''^XA'',
      ''^MMT'',
      ''^PW602'',
      ''^LL0295'',
      ''^LS0'',
      ''^BY110,110^FT465,143^BXN,5,200,22,22,1,~'',
      field_data u,
      text_field ''491,171'' ''A0N,21,21'' (take 8 u),
      text_field ''35,67'' ''A0N,42,40'' t1,
      text_field ''35,119'' ''A0N,42,40'' t2,
      text_field ''35,171'' ''A0N,42,40'' t3,
      text_field ''35,226'' ''A0N,42,40'' t4,
      text_field ''35,278'' ''A0N,42,40'' t5,
      ''^PQ1,0,1,Y^XZ''])"
  by (simp add: create_large_def large_template_def render_defs)

text \<open>
  Claim C8, as stated, fails for the large label: its document holds no rotated text
  field at all (the font command \<^verbatim>\<open>^A0R\<close> does not occur in it).
\<close>

theorem large_label_not_rotated:
  "map_sum id (occurrences ''^A0R'')
     (create_large (demo_uuid 0) ''ID123'' ''Cruise A'' ''2024-06-01'' ''Box 1'' ''Shelf 2'')
   = Inr 0"
  by (simp add: create_large_expand render_defs demo_uuid_def)

lemma occurrences_skip:
  "a \<notin> set xs \<Longrightarrow> occurrences (a # p) (xs @ ys) = occurrences (a # p) ys"
  by (induction xs) auto

lemma caret_take: "CHR ''^'' \<notin> set u \<Longrightarrow> CHR ''^'' \<notin> set (take n u)"
  by (meson in_set_takeD)

lemma take_prefix_aux:
  "take (Suc (Suc (Suc (min (min (length u) 8) 5)))) u = take 8 u"
  by (cases "length u \<le> 5") (simp_all add: min_def eval_nat_numeral)

lemma prefix_once_medium:
  assumes "CHR ''^'' \<notin> set u" "CHR ''^'' \<notin> set t1" "CHR ''^'' \<notin> set t2"
    "CHR ''^'' \<notin> set t3" "CHR ''^'' \<notin> set t4"
  shows "occurrences (text_field ''462,33'' ''A0R,21,21'' (take 8 u))
     (zpl_lines
     [''CT~~CD,~CC^~CT~'',
      ''^XA~TA000~JSN^LT0^MNW^MTT^PON^PMN^LH0,0^JMA^PR4,4~SD30^JUS^LRN^CI28^XZ'',
      ''^XA'',
      ''^MMT'',
      ''^PW898'',
      ''^LL0295'',
      ''^LS0'',
      ''^BY110,110^FT506,111^BXN,4,200,22,22,1,~'',
      field_data u,
      text_field ''445,151'' ''A0N,21,21'' t1,
      text_field ''445,184'' ''A0N,21,21'' t2,
      text_field ''445,217'' ''A0N,21,21'' t3,
      text_field ''445,253'' ''A0N,21,21'' t4,
      text_field ''462,33'' ''A0R,21,21'' (take 8 u),
      ''^PQ1,0,1,Y^XZ'']) = 1"
  using assms caret_take [of u 8]
  by (simp add: render_defs occurrences_skip take_prefix_aux)


lemma prefix_once_large:
  assumes "CHR ''^'' \<notin> set u" "CHR ''^'' \<notin> set t1" "CHR ''^'' \<notin> set t2"
    "CHR ''^'' \<notin> set t3" "CHR ''^'' \<notin> set t4" "CHR ''^'' \<notin> set t5"
  shows "occurrences (text_field ''491,171'' ''A0N,21,21'' (take 8 u))
     (zpl_lines
     [''CT~~CD,~CC^~CT~'',
      ''^XA~TA000~JSN^LT0^MNW^MTT^PON^PMN^LH0,0^JMA^PR4,4~SD28^JUS^LRN^CI28^XZ'',
      ''^XA'',
      ''^MMT'',
      ''^PW602'',
      ''^LL0295'',
      ''^LS0'',
      ''^BY110,110^FT465,143^BXN,5,200,22,22,1,~'',
      field_data u,
      text_field ''491,171'' ''A0N,21,21'' (take 8 u),
      text_field ''35,67'' ''A0N,42,40'' t1,
      text_field ''35,119'' ''A0N,42,40'' t2,
      text_field ''35,171'' ''A0N,42,40'' t3,
      text_field ''35,226'' ''A0N,42,40'' t4,
      text_field ''35,278'' ''A0N,42,40'' t5,
      ''^PQ1,0,1,Y^XZ'']) = 1"
  using assms caret_take [of u 8]
  by (simp add: render_defs occurrences_skip take_prefix_aux)

lemma rotated_once_medium:
  assumes "CHR ''^'' \<notin> set u" "CHR ''^'' \<notin> set t1" "CHR ''^'' \<notin> set t2"
    "CHR ''^'' \<notin> set t3" "CHR ''^'' \<notin> set t4"
  shows "occurrences ''^A0R''
     (zpl_lines
     [''CT~~CD,~CC^~CT~'',
      ''^XA~TA000~JSN^LT0^MNW^MTT^PON^PMN^LH0,0^JMA^PR4,4~SD30^JUS^LRN^CI28^XZ'',
      ''^XA'',
      ''^MMT'',
      ''^PW898'',
      ''^LL0295'',
      ''^LS0'',
      ''^BY110,110^FT506,111^BXN,4,200,22,22,1,~'',
      field_data u,
      text_field ''445,151'' ''A0N,21,21'' t1,
      text_field ''445,184'' ''A0N,21,21'' t2,
      text_field ''445,217'' ''A0N,21,21'' t3,
      text_field ''445,253'' ''A0N,21,21'' t4,
      text_field ''462,33'' ''A0R,21,21'' (take 8 u),
      ''^PQ1,0,1,Y^XZ'']) = 1"
  using assms caret_take [of u 8]
  by (simp add: render_defs occurrences_skip)

lemma rotated_none_large:
  assumes "CHR ''^'' \<notin> set u" "CHR ''^'' \<notin> set t1" "CHR ''^'' \<notin> set t2"
    "CHR ''^'' \<notin> set t3" "CHR ''^'' \<notin> set t4" "CHR ''^'' \<notin> set t5"
  shows "occurrences ''^A0R''
     (zpl_lines
     [''CT~~CD,~CC^~CT~'',
      ''^XA~TA000~JSN^LT0^MNW^MTT^PON^PMN^LH0,0^JMA^PR4,4~SD28^JUS^LRN^CI28^XZ'',
      ''^XA'',
      ''^MMT'',
      ''^PW602'',
      ''^LL0295'',
      ''^LS0'',
      ''^BY110,110^FT465,143^BXN,5,200,22,22,1,~'',
      field_data u,
      text_field ''491,171'' ''A0N,21,21'' (take 8 u),
      text_field ''35,67'' ''A0N,42,40'' t1,
      text_field ''35,119'' ''A0N,42,40'' t2,
      text_field ''35,171'' ''A0N,42,40'' t3,
      text_field ''35,226'' ''A0N,42,40'' t4,
      text_field ''35,278'' ''A0N,42,40'' t5,
      ''^PQ1,0,1,Y^XZ'']) = 0"
  using assms caret_take [of u 8]
  by (simp add: render_defs occurrences_skip)

text \<open>
  Claim C8, amended. For every input each renderer returns a document, line by line as
  follows. The medium document holds the whole identifier as the field data of the
  barcode placed at 506,111, and the first eight characters of the identifier as the
  data of a text field at 462,33, which is rotated (\<^verbatim>\<open>A0R\<close>). The large document
  holds the whole identifier as the field data of the barcode placed at 465,143, and
  the first eight characters as the data of a text field at 491,171 in normal
  orientation (\<^verbatim>\<open>A0N\<close>), not rotated. When neither the identifier nor a text
  holds a caret, the character that starts a command, that text field occurs exactly
  once in its document, the medium document holds exactly one rotated field, and the
  large document holds none. A text is written into the document as it is, so a text
  that holds the commands of the field itself makes the field occur again.
\<close>

theorem identifier_and_prefix_placement:
  "create_label u t1 t2 t3 t4 = Inr (zpl_lines
     [''CT~~CD,~CC^~CT~'',
      ''^XA~TA000~JSN^LT0^MNW^MTT^PON^PMN^LH0,0^JMA^PR4,4~SD30^JUS^LRN^CI28^XZ'',
      ''^XA'',
      ''^MMT'',
      ''^PW898'',
      ''^LL0295'',
      ''^LS0'',
      ''^BY110,110^FT506,111^BXN,4,200,22,22,1,~'',
      field_data u,
      text_field ''445,151'' ''A0N,21,21'' t1,
      text_field ''445,184'' ''A0N,21,21'' t2,
      text_field ''445,217'' ''A0N,21,21'' t3,
      text_field ''445,253'' ''A0N,21,21'' t4,
      text_field ''462,33'' ''A0R,21,21'' (take 8 u),
      ''^PQ1,0,1,Y^XZ''])
   \<and> create_large u t1 t2 t3 t4 t5 = Inr (zpl_lines
     [''CT~~CD,~CC^~CT~'',
      ''^XA~TA000~JSN^LT0^MNW^MTT^PON^PMN^LH0,0^JMA^PR4,4~SD28^JUS^LRN^CI28^XZ'',
      ''^XA'',
      ''^MMT'',
      ''^PW602'',
      ''^LL0295'',
      ''^LS0'',
      ''^BY110,110^FT465,143^BXN,5,200,22,22,1,~'',
      field_data u,
      text_field ''491,171'' ''A0N,21,21'' (take 8 u),
      text_field ''35,67'' ''A0N,42,40'' t1,
      text_field ''35,119'' ''A0N,42,40'' t2,
      text_field ''35,171'' ''A0N,42,40'' t3,
      text_field ''35,226'' ''A0N,42,40'' t4,
      text_field ''35,278'' ''A0N,42,40'' t5,
      ''^PQ1,0,1,Y^XZ''])
   \<and> (CHR ''^'' \<notin> set (u @ t1 @ t2 @ t3 @ t4) \<longrightarrow>
        map_sum id (occurrences (text_field ''462,33'' ''A0R,21,21'' (take 8 u)))
          (create_label u t1 t2 t3 t4) = Inr 1
      \<and> map_sum id (occurrences ''^A0R'') (create_label u t1 t2 t3 t4) = Inr 1)
   \<and> (CHR ''^'' \<notin> set (u @ t1 @ t2 @ t3 @ t4 @ t5) \<longrightarrow>
        map_sum id (occurrences (text_field ''491,171'' ''A0N,21,21'' (take 8 u)))
          (create_large u t1 t2 t3 t4 t5) = Inr 1
      \<and> map_sum id (occurrences ''^A0R'') (create_large u t1 t2 t3 t4 t5) = Inr 0)"
  by (simp add: create_label_expand create_large_expand prefix_once_medium
      prefix_once_large rotated_once_medium rotated_none_large)

theorem identifier_and_prefix_placement_witness:
  "CHR ''^'' \<notin> set (demo_uuid 0 @ ''ID123'' @ ''Cruise A'' @ ''2024-06-01'' @ ''Box 1'')
   \<and> CHR ''^'' \<notin> set (demo_uuid 0 @ ''ID123'' @ ''Cruise A'' @ ''2024-06-01'' @ ''Box 1''
                        @ ''Shelf 2'')
   \<and> take 8 (demo_uuid 0) = ''1b4e28b0''
   \<and> map_sum id (occurrences (text_field ''462,33'' ''A0R,21,21'' ''1b4e28b0''))
        (create_label (demo_uuid 0) ''ID123'' ''Cruise A'' ''2024-06-01'' ''Box 1'') = Inr 1
   \<and> map_sum id (occurrences ''^A0R'')
        (create_label (demo_uuid 0) ''ID123'' ''Cruise A'' ''2024-06-01'' ''Box 1'') = Inr 1
   \<and> map_sum id (occurrences (text_field ''491,171'' ''A0N,21,21'' ''1b4e28b0''))
        (create_large (demo_uuid 0) ''ID123'' ''Cruise A'' ''2024-06-01'' ''Box 1'' ''Shelf 2'')
       = Inr 1"
proof -
  have u: "CHR ''^'' \<notin> set (demo_uuid 0)" "take 8 (demo_uuid 0) = ''1b4e28b0''"
    by (simp_all add: demo_uuid_def)
  have clean:
    "CHR ''^'' \<notin> set (demo_uuid 0 @ ''ID123'' @ ''Cruise A'' @ ''2024-06-01'' @ ''Box 1'')"
    "CHR ''^'' \<notin> set (demo_uuid 0 @ ''ID123'' @ ''Cruise A'' @ ''2024-06-01'' @ ''Box 1''
                        @ ''Shelf 2'')"
    using u(1) by simp_all
  have counts:
    "map_sum id (occurrences (text_field ''462,33'' ''A0R,21,21'' (take 8 (demo_uuid 0))))
        (create_label (demo_uuid 0) ''ID123'' ''Cruise A'' ''2024-06-01'' ''Box 1'') = Inr 1"
    "map_sum id (occurrences ''^A0R'')
        (create_label (demo_uuid 0) ''ID123'' ''Cruise A'' ''2024-06-01'' ''Box 1'') = Inr 1"
    "map_sum id (occurrences (text_field ''491,171'' ''A0N,21,21'' (take 8 (demo_uuid 0))))
        (create_large (demo_uuid 0) ''ID123'' ''Cruise A'' ''2024-06-01'' ''Box 1'' ''Shelf 2'')
       = Inr 1"
    using identifier_and_prefix_placement
      [of "demo_uuid 0" "''ID123''" "''Cruise A''" "''2024-06-01''" "''Box 1''" "''Shelf 2''"]
      clean
    by blast+
  show ?thesis
    using clean counts u(2) by simp
qed

text \<open>
  Claim C2, as stated, fails: a first text of 19 characters on a medium label, whose
  maximum is 18, is in the document whole.
\<close>

theorem long_text_rendered_whole:
  "length ''ABCDEFGHIJKLMNOPQRS'' = 19
   \<and> map_sum id (occurrences ''ABCDEFGHIJKLMNOPQRS'')
       (create_label (demo_uuid 0) ''ABCDEFGHIJKLMNOPQRS'' ''Cruise A'' ''2024-06-01'' ''Box 1'')
     = Inr 1"
  by (simp add: create_label_expand render_defs demo_uuid_def)

lemma create_label_text_inject:
  "(create_label u t1 t2 t3 t4 = create_label u t1' t2 t3 t4) = (t1 = t1')"
  "(create_label u t1 t2 t3 t4 = create_label u t1 t2' t3 t4) = (t2 = t2')"
  "(create_label u t1 t2 t3 t4 = create_label u t1 t2 t3' t4) = (t3 = t3')"
  "(create_label u t1 t2 t3 t4 = create_label u t1 t2 t3 t4') = (t4 = t4')"
  by (simp_all add: create_label_expand render_defs)

lemma create_large_text_inject:
  "(create_large u t1 t2 t3 t4 t5 = create_large u t1' t2 t3 t4 t5) = (t1 = t1')"
  "(create_large u t1 t2 t3 t4 t5 = create_large u t1 t2' t3 t4 t5) = (t2 = t2')"
  "(create_large u t1 t2 t3 t4 t5 = create_large u t1 t2 t3' t4 t5) = (t3 = t3')"
  "(create_large u t1 t2 t3 t4 t5 = create_large u t1 t2 t3 t4' t5) = (t4 = t4')"
  "(create_large u t1 t2 t3 t4 t5 = create_large u t1 t2 t3 t4 t5') = (t5 = t5')"
  by (simp_all add: create_large_expand render_defs)

text \<open>
  Claim C2, amended. The renderers never raise and never cut a text: with the other
  arguments fixed, two texts for a slot give the same document only if they are the
  same text, whatever their lengths. The cut to the maximum length is made by the form
  when a label size is chosen: \<^verbatim>\<open>Medium\<close> cuts the first four texts to their first
  18 characters and empties the fifth, \<^verbatim>\<open>Large\<close> cuts the first four texts to their
  first 20 characters and the fifth to its first 36; a cut text has the length of the
  maximum if it was longer and is unchanged otherwise; and choosing the same size again
  changes nothing.
\<close>

theorem texts_cut_by_form_not_by_render:
  "(\<exists>d. create_label u t1 t2 t3 t4 = Inr d)
   \<and> (\<exists>d. create_large u t1 t2 t3 t4 t5 = Inr d)
   \<and> (create_label u t1 t2 t3 t4 = create_label u t1' t2 t3 t4) = (t1 = t1')
   \<and> (create_label u t1 t2 t3 t4 = create_label u t1 t2' t3 t4) = (t2 = t2')
   \<and> (create_label u t1 t2 t3 t4 = create_label u t1 t2 t3' t4) = (t3 = t3')
   \<and> (create_label u t1 t2 t3 t4 = create_label u t1 t2 t3 t4') = (t4 = t4')
   \<and> (create_large u t1 t2 t3 t4 t5 = create_large u t1' t2 t3 t4 t5) = (t1 = t1')
   \<and> (create_large u t1 t2 t3 t4 t5 = create_large u t1 t2' t3 t4 t5) = (t2 = t2')
   \<and> (create_large u t1 t2 t3 t4 t5 = create_large u t1 t2 t3' t4 t5) = (t3 = t3')
   \<and> (create_large u t1 t2 t3 t4 t5 = create_large u t1 t2 t3 t4' t5) = (t4 = t4')
   \<and> (create_large u t1 t2 t3 t4 t5 = create_large u t1 t2 t3 t4 t5') = (t5 = t5')
   \<and> map (\<lambda>f. f (on_size_select e ''Medium'' w)) [text1, text2, text3, text4, text5]
       = [take 18 (text1 w), take 18 (text2 w), take 18 (text3 w), take 18 (text4 w), []]
   \<and> map (\<lambda>f. f (on_size_select e ''Large'' w)) [text1, text2, text3, text4, text5]
       = [take 20 (text1 w), take 20 (text2 w), take 20 (text3 w), take 20 (text4 w),
          take 36 (text5 w)]
   \<and> length (take m t) = min (length t) m
   \<and> on_size_select e sz (on_size_select e sz w) = on_size_select e sz w"
proof -
  have "\<exists>d. create_label u t1 t2 t3 t4 = Inr d"
    using create_label_expand [of u t1 t2 t3 t4] by blast
  moreover have "\<exists>d. create_large u t1 t2 t3 t4 t5 = Inr d"
    using create_large_expand [of u t1 t2 t3 t4 t5] by blast
  moreover have "map (\<lambda>f. f (on_size_select e ''Medium'' w)) [text1, text2, text3, text4, text5]
       = [take 18 (text1 w), take 18 (text2 w), take 18 (text3 w), take 18 (text4 w), []]"
    by (simp add: on_size_select_def Let_def)
  moreover have "map (\<lambda>f. f (on_size_select e ''Large'' w)) [text1, text2, text3, text4, text5]
       = [take 20 (text1 w), take 20 (text2 w), take 20 (text3 w), take 20 (text4 w),
          take 36 (text5 w)]"
    by (simp add: on_size_select_def Let_def)
  moreover have "on_size_select e sz (on_size_select e sz w) = on_size_select e sz w"
    by (simp add: on_size_select_def Let_def)
  ultimately show ?thesis
    by (simp only: create_label_text_inject create_large_text_inject length_take
        simp_thms)
qed

subsection \<open>The record of a batch that returns\<close>

lemma sent_append: "sent (xs @ ys) = sent xs @ sent ys"
  by (induction xs rule: sent.induct) auto
lemma opens_append: "opens (xs @ ys) = opens xs + opens ys"
  by (induction xs rule: opens.induct) auto
lemma closes_append: "closes (xs @ ys) = closes xs + closes ys"
  by (induction xs rule: closes.induct) auto

lemma copy_events_Cons:
  "copy_events (z # zs) = [EvRender z, EvSend z, EvSleep] @ copy_events zs"
  by (simp add: copy_events_def)

lemma copy_events_counts:
  "sent (copy_events zs) = zs" "opens (copy_events zs) = 0" "closes (copy_events zs) = 0"
  by (induction zs) (simp_all add: copy_events_def)

lemma print_copy_success:
  assumes "print_copy e l s = (Inr l', s')" and "loop_inv l s"
  shows "\<exists>z. trace s' = trace s @ [EvRender z, EvSend z, EvSleep]"
    and "socket s' = socket s"
    and "loop_inv l' s'"
  using assms
  by (auto simp: print_copy_def copy_increment_def copy_render_def rendered_def
      copy_send_def send_to_printer_def loop_inv_def Let_def
      split: if_splits sum.splits option.splits prod.splits sock.splits)

lemma copies_success:
  "copies e n l s = (Inr l', s') \<Longrightarrow> loop_inv l s \<Longrightarrow>
   \<exists>zs. length zs = n \<and> trace s' = trace s @ copy_events zs \<and> socket s' = socket s"
proof (induction n arbitrary: l s)
  case 0
  then show ?case by (simp add: copy_events_def)
next
  case (Suc n)
  from Suc.prems(1) obtain l1 s1 where
    step: "print_copy e l s = (Inr l1, s1)" and rest: "copies e n l1 s1 = (Inr l', s')"
    by (auto split: prod.splits sum.splits)
  from print_copy_success [OF step Suc.prems(2)] obtain z where
    z: "trace s1 = trace s @ [EvRender z, EvSend z, EvSleep]"
    and sock: "socket s1 = socket s" and inv: "loop_inv l1 s1"
    by blast
  from Suc.IH [OF rest inv] obtain zs where
    zs: "length zs = n" "trace s' = trace s1 @ copy_events zs" "socket s' = socket s1"
    by blast
  have "length (z # zs) = Suc n" using zs by simp
  moreover have "trace s' = trace s @ copy_events (z # zs)"
    using z zs by (simp add: copy_events_Cons)
  moreover have "socket s' = socket s" using zs sock by simp
  ultimately show ?case by blast
qed

lemma print_label_success:
  assumes "print_label e s = (Inr (), s')"
    and "ip_text (widget s) \<noteq> []"
    and "reachable e (ip_text (widget s))"
  shows "\<exists>k zs. py_int (number_text (widget s)) = Inr k \<and> length zs = nat k
    \<and> trace s' = trace s @ EvConnect (ip_text (widget s)) 9100 # copy_events zs @ [EvClose]
    \<and> socket s' = Some Closed"
proof -
  define s1 where "s1 = s\<lparr>stdout := stdout s @ [''Printing label''],
      IP := Some (ip_text (widget s)), PORT := Some 9100, BUFFER_SIZE := Some 1024,
      socket := Some (Connected (ip_text (widget s))),
      trace := trace s @ [EvConnect (ip_text (widget s)) 9100]\<rparr>"
  define l where "l = \<lparr>l_text1 = text1 (widget s), l_text2 = text2 (widget s),
      l_text3 = text3 (widget s), l_text4 = text4 (widget s),
      l_text5 = text5 (widget s), l_zpl = None\<rparr>"
  from assms obtain k l' s2 where
    k: "py_int (number_text (widget s)) = Inr k"
    and loop: "copies e (nat k) l s1 = (Inr l', s2)"
    and stop: "s' = snd (on_stop s2)"
    by (auto simp: print_label_def start_printer_def Let_def s1_def l_def
        split: sum.splits prod.splits)
  have "loop_inv l s1" by (simp add: loop_inv_def l_def)
  from copies_success [OF loop this] obtain zs where
    zs: "length zs = nat k" "trace s2 = trace s1 @ copy_events zs" "socket s2 = socket s1"
    by blast
  have "trace s' = trace s @ EvConnect (ip_text (widget s)) 9100 # copy_events zs @ [EvClose]"
    and "socket s' = Some Closed"
    using zs stop by (simp_all add: on_stop_def s1_def)
  with k zs(1) show ?thesis by blast
qed

lemma create_label_returns: "\<exists>d. create_label u t1 t2 t3 t4 = Inr d"
  using create_label_expand [of u t1 t2 t3 t4] by blast

lemmas run_defs =
  print_label_def start_printer_def print_copy_def copy_increment_def copy_render_def
  rendered_def copy_send_def send_to_printer_def on_stop_def alert_def Let_def

lemma three: "nat 3 = Suc (Suc (Suc 0))" "(3::nat) = Suc (Suc (Suc 0))" by simp_all

lemma box_run_plain:
  "fst (print_label demo_env (box_state False)) = Inr ()"
proof -
  obtain d0 d1 d2 where
    d: "create_label (demo_uuid 0) ''ID123'' ''Cruise A'' ''2024-06-01'' ''Box 1'' = Inr d0" 
    "create_label (demo_uuid (Suc 0)) ''ID123'' ''Cruise A'' ''2024-06-01'' ''Box 1'' = Inr d1" 
    "create_label (demo_uuid (Suc (Suc 0))) ''ID123'' ''Cruise A'' ''2024-06-01'' ''Box 1'' = Inr d2" 
    using create_label_returns by metis
  show ?thesis
    by (simp add: run_defs box_state_def build_def box_form_def demo_env_def py_int_3 three d)
qed

text \<open>
  Claim C7. A batch that starts with a non-empty address at which the printer answers and
  returns without an exception has read a number of copies \<open>k\<close>; among its events
  there are as many writes as \<open>max k 0\<close>, exactly one connection opened, which is the
  first event, and exactly one close, which is the last event, so no connection is
  opened or closed between the copies; the socket is closed at the end.
\<close>

theorem connection_once_per_batch:
  assumes "print_label e s = (Inr (), s')"
    and "ip_text (widget s) \<noteq> []"
    and "reachable e (ip_text (widget s))"
  shows "\<exists>k. py_int (number_text (widget s)) = Inr k
    \<and> length (sent (drop (length (trace s)) (trace s'))) = nat k
    \<and> opens (drop (length (trace s)) (trace s')) = 1
    \<and> closes (drop (length (trace s)) (trace s')) = 1
    \<and> hd (drop (length (trace s)) (trace s')) = EvConnect (ip_text (widget s)) 9100
    \<and> last (trace s') = EvClose
    \<and> socket s' = Some Closed"
proof -
  from print_label_success [OF assms] obtain k zs where
    k: "py_int (number_text (widget s)) = Inr k" and len: "length zs = nat k"
    and tr: "trace s' = trace s @ EvConnect (ip_text (widget s)) 9100 # copy_events zs @ [EvClose]"
    and sock: "socket s' = Some Closed"
    by blast
  have "drop (length (trace s)) (trace s')
      = EvConnect (ip_text (widget s)) 9100 # copy_events zs @ [EvClose]"
    using tr by simp
  then show ?thesis
    using k len tr sock
    by (simp add: sent_append opens_append closes_append copy_events_counts)
qed

theorem connection_once_per_batch_witness:
  "print_label demo_env (box_state False)
     = (Inr (), snd (print_label demo_env (box_state False)))
   \<and> ip_text (widget (box_state False)) \<noteq> []
   \<and> reachable demo_env (ip_text (widget (box_state False)))
   \<and> py_int (number_text (widget (box_state False))) = Inr 3
   \<and> length (sent (trace (snd (print_label demo_env (box_state False))))) = 3
   \<and> opens (trace (snd (print_label demo_env (box_state False)))) = 1
   \<and> closes (trace (snd (print_label demo_env (box_state False)))) = 1"
proof -
  have run: "print_label demo_env (box_state False)
     = (Inr (), snd (print_label demo_env (box_state False)))"
    using box_run_plain by (metis prod.collapse)
  have ip: "ip_text (widget (box_state False)) \<noteq> []"
    "reachable demo_env (ip_text (widget (box_state False)))"
    "trace (box_state False) = []"
    by (simp_all add: box_state_def build_def box_form_def demo_env_def)
  show ?thesis
    using connection_once_per_batch [OF run ip(1) ip(2)] run ip py_int_3
    by (simp add: box_state_def build_def box_form_def)
qed


text \<open>
  Claim C9. The events of such a batch are the connection, then for each copy in turn
  the three events rendered, written, pause, and then the close: every copy, the last
  one too, ends with the pause.
\<close>

theorem copy_order_render_send_delay:
  assumes "print_label e s = (Inr (), s')"
    and "ip_text (widget s) \<noteq> []"
    and "reachable e (ip_text (widget s))"
  shows "\<exists>k zs. py_int (number_text (widget s)) = Inr k \<and> length zs = nat k
    \<and> drop (length (trace s)) (trace s')
        = [EvConnect (ip_text (widget s)) 9100]
          @ concat (map (\<lambda>z. [EvRender z, EvSend z, EvSleep]) zs)
          @ [EvClose]"
proof -
  from print_label_success [OF assms] obtain k zs where
    "py_int (number_text (widget s)) = Inr k" and "length zs = nat k"
    and "trace s' = trace s @ EvConnect (ip_text (widget s)) 9100 # copy_events zs @ [EvClose]"
    by blast
  then show ?thesis
    by (auto simp: copy_events_def)
qed

theorem copy_order_render_send_delay_witness:
  "print_label demo_env (box_state False)
     = (Inr (), snd (print_label demo_env (box_state False)))
   \<and> ip_text (widget (box_state False)) \<noteq> []
   \<and> reachable demo_env (ip_text (widget (box_state False)))
   \<and> (\<exists>zs. length zs = 3
        \<and> trace (snd (print_label demo_env (box_state False)))
            = [EvConnect ''158.39.88.208'' 9100]
              @ concat (map (\<lambda>z. [EvRender z, EvSend z, EvSleep]) zs)
              @ [EvClose])"
proof -
  have run: "print_label demo_env (box_state False)
     = (Inr (), snd (print_label demo_env (box_state False)))"
    using box_run_plain by (metis prod.collapse)
  have ip: "ip_text (widget (box_state False)) \<noteq> []"
    "reachable demo_env (ip_text (widget (box_state False)))"
    "trace (box_state False) = []"
    "ip_text (widget (box_state False)) = ''158.39.88.208''"
    "number_text (widget (box_state False)) = ''3''"
    by (simp_all add: box_state_def build_def box_form_def demo_env_def)
  show ?thesis
    using copy_order_render_send_delay [OF run ip(1) ip(2)] run ip py_int_3
    by auto
qed

subsection \<open>The increment helper on its own\<close>

lemmas inc_defs = increment_def isdigit_def py_str_def is_digit_def digits_val_def digit_val_def

lemma str_nat_digit: "n < 10 \<Longrightarrow> str_nat n = [''0123456789'' ! n]"
  by (simp add: str_nat.simps)


lemma sub_examples:
  "re_sub_numbers (\<lambda>m. increment fl m 1) ''A7B'' = ''A8B''"
  "re_sub_numbers (\<lambda>m. increment fl m 1) ''no digits'' = ''no digits''"
  "re_sub_numbers (\<lambda>m. increment fl m 1) ''x007y'' = ''x8y''"
  "re_sub_numbers (\<lambda>m. increment fl m 1) ''v1.5'' = ''v'' @ fl ''1.5'' 1"
  by (simp_all add: inc_defs str_nat_digit)

text \<open>
  Claim C3. The body of \<^verbatim>\<open>inc_nums\<close> begins with the lookup of the name
  \<^verbatim>\<open>re\<close>. Where that name is not bound at module scope, as in the module as it
  is, \<^verbatim>\<open>inc_nums\<close> raises \<^verbatim>\<open>NameError\<close> on every text and returns
  nothing. Where the name is bound, \<^verbatim>\<open>inc_nums\<close> maps \<^verbatim>\<open>A7B\<close> to
  \<^verbatim>\<open>A8B\<close>, leaves \<^verbatim>\<open>no digits\<close> as it is, maps \<^verbatim>\<open>x007y\<close> to
  \<^verbatim>\<open>x8y\<close>, and maps \<^verbatim>\<open>v1.5\<close> to \<^verbatim>\<open>v\<close> followed by the text that
  floating-point addition gives for \<^verbatim>\<open>1.5\<close> and 1: the whole of \<^verbatim>\<open>1.5\<close>
  is one match.
\<close>

theorem inc_nums_examples:
  "(''re'' \<notin> set (globals e) \<longrightarrow> inc_nums e text = Inl (NameError ''re''))
   \<and> (''re'' \<in> set (globals e) \<longrightarrow>
        inc_nums e ''A7B'' = Inr ''A8B''
      \<and> inc_nums e ''no digits'' = Inr ''no digits''
      \<and> inc_nums e ''x007y'' = Inr ''x8y''
      \<and> inc_nums e ''v1.5'' = Inr (''v'' @ str_float_add e ''1.5'' 1))"
  by (simp add: inc_nums_def sub_examples del: re_sub_numbers.simps)

theorem inc_nums_examples_witness:
  "''re'' \<notin> set (globals demo_env)
   \<and> map (inc_nums demo_env) [''A7B'', ''v1.5'', ''no digits'', ''x007y'']
     = [Inl (NameError ''re''), Inl (NameError ''re''), Inl (NameError ''re''),
        Inl (NameError ''re'')]
   \<and> ''re'' \<in> set (globals bound_env)
   \<and> map (inc_nums bound_env) [''A7B'', ''no digits'', ''x007y'']
     = [Inr ''A8B'', Inr ''no digits'', Inr ''x8y'']"
  using inc_nums_examples [of demo_env "''A7B''"] inc_nums_examples [of demo_env "''v1.5''"]
    inc_nums_examples [of demo_env "''no digits''"] inc_nums_examples [of demo_env "''x007y''"]
    inc_nums_examples [of bound_env] module_globals_missing
  by (simp add: demo_env_def bound_env_def)

subsection \<open>The batch of the example\<close>




subsection \<open>What a batch leaves behind\<close>








end
